theory Spec2Isabelle
  imports Main "HOL-Library.Word"
begin

unbundle bit_operations_syntax

section \<open>The time type of \<^verbatim>\<open>include/internal/time.h\<close>\<close>

text \<open>
  \<^verbatim>\<open>uint64_t\<close> is a 64-bit word: \<open>+\<close>, \<open>-\<close> and \<open>*\<close> wrap around, \<open>div\<close> and
  \<open>mod\<close> are the unsigned operations, \<open>unat\<close> reads the value. A C \<^verbatim>\<open>int\<close> is a
  32-bit word, and a signed 64-bit integer a 64-bit word read by \<open>sint\<close>.
\<close>

type_synonym uint64_t = "64 word"
type_synonym c_int = "32 word"
type_synonym int64_t = "64 word"

text \<open>\<^verbatim>\<open>typedef struct { uint64_t t; } OSSL_TIME;\<close>: ticks since the epoch.\<close>

record OSSL_TIME =
  t :: uint64_t

text \<open>The precision of times allows this many values per second.\<close>

definition OSSL_TIME_SECOND :: uint64_t where
  "OSSL_TIME_SECOND = 1000000000"

definition OSSL_TIME_MS :: uint64_t where
  "OSSL_TIME_MS = OSSL_TIME_SECOND div 1000"

definition OSSL_TIME_US :: uint64_t where
  "OSSL_TIME_US = OSSL_TIME_MS div 1000"

text \<open>Convert a tick count into a time, and a time into a tick count.\<close>

definition ossl_ticks2time :: "uint64_t \<Rightarrow> OSSL_TIME" where
  "ossl_ticks2time ticks = \<lparr>t = ticks\<rparr>"

definition ossl_time2ticks :: "OSSL_TIME \<Rightarrow> uint64_t" where
  "ossl_time2ticks a = t a"

text \<open>The beginning and end of the time range; the end is \<^verbatim>\<open>~(uint64_t)0\<close>.\<close>

definition ossl_time_zero :: OSSL_TIME where
  "ossl_time_zero = ossl_ticks2time 0"

definition ossl_time_infinite :: OSSL_TIME where
  "ossl_time_infinite = ossl_ticks2time (NOT 0)"

subsection \<open>Conversion to \<^verbatim>\<open>struct timeval\<close>\<close>

text \<open>
  Modelled from the spec: \<^verbatim>\<open>struct timeval\<close> is declared by the platform headers
  behind \<^verbatim>\<open>internal/e_os.h\<close>, which the repository slice does not hold. The spec
  gives the wall-clock structure as seconds of type i64 (or wider) and microseconds
  of type u32, so the seconds field is a 64-bit word read as two's complement
  (\<open>sint\<close>) and the microseconds field a 32-bit word read unsigned (\<open>unat\<close>).
\<close>

record timeval =
  tv_sec :: int64_t
  tv_usec :: "32 word"

text \<open>
  The function writes both fields of \<^verbatim>\<open>*out\<close>; the model takes the structure and
  returns it updated. The source has two preprocessor branches for the seconds:
  under \<^verbatim>\<open>_WIN32\<close> the quotient is cast to \<^verbatim>\<open>long int\<close>, otherwise to \<^verbatim>\<open>time_t\<close>.
  The symbol \<^verbatim>\<open>_WIN32\<close> is the first argument of the model. On every Windows target
  \<^verbatim>\<open>long int\<close> has 32 bits, so that branch keeps the low 32 bits of the quotient and
  reads them as two's complement; the value is then stored in the seconds field
  (sign-extended, which leaves it unchanged). \<^verbatim>\<open>time_t\<close> is the type of the seconds
  field. The divisor of the last assignment is \<^verbatim>\<open>OSSL_TIME_SECOND / 1000000\<close>, as
  written.
\<close>

type_synonym long_int_win32 = "32 word"
type_synonym time_t = int64_t

definition ossl_time_time_to_timeval :: "bool \<Rightarrow> OSSL_TIME \<Rightarrow> timeval \<Rightarrow> timeval" where
  "ossl_time_time_to_timeval win32 a out =
     (let out1 =
        (if win32
         then out\<lparr>tv_sec := scast (ucast (t a div OSSL_TIME_SECOND) :: long_int_win32)\<rparr>
         else out\<lparr>tv_sec := (ucast (t a div OSSL_TIME_SECOND) :: time_t)\<rparr>)
      in out1\<lparr>tv_usec :=
           ucast ((t a mod OSSL_TIME_SECOND) div (OSSL_TIME_SECOND div 1000000))\<rparr>)"

subsection \<open>Comparison\<close>

text \<open>Compare two time values, return -1 if less, 1 if greater and 0 if equal.\<close>

definition ossl_time_compare :: "OSSL_TIME \<Rightarrow> OSSL_TIME \<Rightarrow> int" where
  "ossl_time_compare a b =
     (if t a > t b then 1
      else if t a < t b then - 1
      else 0)"

subsection \<open>The checked primitives\<close>

text \<open>
  Modelled from the spec: the macro \<^verbatim>\<open>OSSL_SAFE_MATH_UNSIGNED(time, uint64_t)\<close> of
  \<^verbatim>\<open>internal/safe_math.h\<close>, which the repository slice does not hold, generates
  \<^verbatim>\<open>safe_add_time\<close>, \<^verbatim>\<open>safe_sub_time\<close>, \<^verbatim>\<open>safe_mul_time\<close> and \<^verbatim>\<open>safe_div_time\<close>.
  The spec describes them as checked add, sub, mul and div over unsigned 64-bit
  integers that return a result together with an error flag, and report overflow,
  underflow and division by zero instead of wrapping. The call sites in
  \<^verbatim>\<open>time.h\<close> fix the shape: two operands and an \<^verbatim>\<open>int *err\<close> that the caller has
  set to 0. The model takes the flag and returns it with the result; a failure
  raises bit 0 of it, a success leaves it as it was. The flag is decided on the
  exact (unbounded) result. The value returned beside a raised flag is not fixed
  by the spec and every caller in \<^verbatim>\<open>time.h\<close> discards it; the model returns the
  wrapped machine result, and for a zero divisor 0 when the dividend is 0 and the
  largest value otherwise.
\<close>

definition safe_add_time :: "uint64_t \<Rightarrow> uint64_t \<Rightarrow> c_int \<Rightarrow> uint64_t \<times> c_int" where
  "safe_add_time a b err =
     (if unat a + unat b < 2 ^ 64 then (a + b, err) else (a + b, err OR 1))"

definition safe_sub_time :: "uint64_t \<Rightarrow> uint64_t \<Rightarrow> c_int \<Rightarrow> uint64_t \<times> c_int" where
  "safe_sub_time a b err =
     (if unat b \<le> unat a then (a - b, err) else (a - b, err OR 1))"

definition safe_mul_time :: "uint64_t \<Rightarrow> uint64_t \<Rightarrow> c_int \<Rightarrow> uint64_t \<times> c_int" where
  "safe_mul_time a b err =
     (if unat a * unat b < 2 ^ 64 then (a * b, err) else (a * b, err OR 1))"

definition safe_div_time :: "uint64_t \<Rightarrow> uint64_t \<Rightarrow> c_int \<Rightarrow> uint64_t \<times> c_int" where
  "safe_div_time a b err =
     (if b \<noteq> 0 then (a div b, err)
      else (if a = 0 then 0 else NOT 0, err OR 1))"

subsection \<open>Saturating arithmetic\<close>

text \<open>
  Each operation sets \<^verbatim>\<open>err = 0\<close>, stores the primitive's result in \<^verbatim>\<open>r.t\<close> and
  returns the sentinel when \<^verbatim>\<open>err\<close> is nonzero, \<^verbatim>\<open>r\<close> otherwise.
\<close>

definition ossl_time_add :: "OSSL_TIME \<Rightarrow> OSSL_TIME \<Rightarrow> OSSL_TIME" where
  "ossl_time_add a b =
     (let (r, err) = safe_add_time (t a) (t b) 0
      in if err \<noteq> 0 then ossl_time_infinite else \<lparr>t = r\<rparr>)"

definition ossl_time_subtract :: "OSSL_TIME \<Rightarrow> OSSL_TIME \<Rightarrow> OSSL_TIME" where
  "ossl_time_subtract a b =
     (let (r, err) = safe_sub_time (t a) (t b) 0
      in if err \<noteq> 0 then ossl_time_zero else \<lparr>t = r\<rparr>)"

text \<open>Returns |a - b|.\<close>

definition ossl_time_abs_difference :: "OSSL_TIME \<Rightarrow> OSSL_TIME \<Rightarrow> OSSL_TIME" where
  "ossl_time_abs_difference a b =
     (if t a > t b then ossl_time_subtract a b else ossl_time_subtract b a)"

definition ossl_time_multiply :: "OSSL_TIME \<Rightarrow> uint64_t \<Rightarrow> OSSL_TIME" where
  "ossl_time_multiply a b =
     (let (r, err) = safe_mul_time (t a) b 0
      in if err \<noteq> 0 then ossl_time_infinite else \<lparr>t = r\<rparr>)"

definition ossl_time_divide :: "OSSL_TIME \<Rightarrow> uint64_t \<Rightarrow> OSSL_TIME" where
  "ossl_time_divide a b =
     (let (r, err) = safe_div_time (t a) b 0
      in if err \<noteq> 0 then ossl_time_zero else \<lparr>t = r\<rparr>)"

text \<open>
  Return the higher, and the lower, of the two given time values. Each function
  reads only the field \<^verbatim>\<open>t\<close> of its operands and returns one operand whole. The
  model states them for every structure that holds the field \<open>t\<close> (the record scheme
  of \<open>OSSL_TIME\<close>); \<open>OSSL_TIME\<close> itself is the instance with no further field. At
  \<open>OSSL_TIME\<close> two operands of equal ticks are the same value, so only the general
  form can tell which operand is returned.
\<close>

definition ossl_time_max ::
  "'a OSSL_TIME_scheme \<Rightarrow> 'a OSSL_TIME_scheme \<Rightarrow> 'a OSSL_TIME_scheme" where
  "ossl_time_max a b = (if t a > t b then a else b)"

definition ossl_time_min ::
  "'a OSSL_TIME_scheme \<Rightarrow> 'a OSSL_TIME_scheme \<Rightarrow> 'a OSSL_TIME_scheme" where
  "ossl_time_min a b = (if t a < t b then a else b)"

section \<open>Properties\<close>

subsection \<open>Auxiliary facts\<close>

lemma unat_lt_64: "unat (x :: 64 word) < 18446744073709551616"
  using unsigned_less [of x] by simp

lemma unat_minus_1_64: "unat (- 1 :: 64 word) = 18446744073709551615"
  by (simp add: unsigned_minus_1_eq_mask mask_eq_exp_minus_1)

lemma ossl_time_add_unfold:
  "ossl_time_add a b =
     (if unat (t a) + unat (t b) < 2 ^ 64 then \<lparr>t = t a + t b\<rparr> else \<lparr>t = - 1\<rparr>)"
  by (simp add: ossl_time_add_def safe_add_time_def ossl_time_infinite_def ossl_ticks2time_def)

lemma ossl_time_subtract_unfold:
  "ossl_time_subtract a b =
     (if unat (t b) \<le> unat (t a) then \<lparr>t = t a - t b\<rparr> else \<lparr>t = 0\<rparr>)"
  by (simp add: ossl_time_subtract_def safe_sub_time_def ossl_time_zero_def ossl_ticks2time_def)

lemma ossl_time_multiply_unfold:
  "ossl_time_multiply a s =
     (if unat (t a) * unat s < 2 ^ 64 then \<lparr>t = t a * s\<rparr> else \<lparr>t = - 1\<rparr>)"
  by (simp add: ossl_time_multiply_def safe_mul_time_def ossl_time_infinite_def ossl_ticks2time_def)

lemma ossl_time_divide_unfold:
  "ossl_time_divide a s = (if s = 0 then \<lparr>t = 0\<rparr> else \<lparr>t = t a div s\<rparr>)"
  by (simp add: ossl_time_divide_def safe_div_time_def ossl_time_zero_def ossl_ticks2time_def)

lemma unat_add_exact:
  "unat x + unat y < 2 ^ 64 \<Longrightarrow> unat (x + y) = unat x + unat y" for x y :: "64 word"
  using unat_add_lem [of x y] by simp

lemma unat_mult_exact:
  "unat x * unat y < 2 ^ 64 \<Longrightarrow> unat (x * y) = unat x * unat y" for x y :: "64 word"
  using unat_mult_lem [of x y] by simp

lemma unat_sub_exact:
  "unat y \<le> unat x \<Longrightarrow> unat (x - y) = unat x - unat y" for x y :: "64 word"
  by (simp add: unat_sub word_le_nat_alt)

subsection \<open>Addition\<close>

text \<open>
  C1. For all times \<open>a\<close> and \<open>b\<close>, \<open>ossl_time_add a b\<close> is the time whose tick count is
  the exact sum of the two tick counts when that sum is below \<open>2 ^ 64\<close>, and is
  \<open>ossl_time_infinite\<close>, of tick count \<open>2 ^ 64 - 1\<close>, when the sum overflows. Adding to
  \<open>ossl_time_zero\<close> returns the other operand, and adding one tick to
  \<open>ossl_time_infinite\<close> returns \<open>ossl_time_infinite\<close>.
\<close>

theorem ossl_time_add_saturates:
  "ossl_time_add a b =
     (if unat (t a) + unat (t b) < 2 ^ 64
      then ossl_ticks2time (of_nat (unat (t a) + unat (t b)))
      else ossl_time_infinite)
   \<and> unat (ossl_time2ticks (ossl_time_add a b)) =
     (if unat (t a) + unat (t b) < 2 ^ 64 then unat (t a) + unat (t b) else 2 ^ 64 - 1)
   \<and> ossl_time_add ossl_time_zero a = a
   \<and> ossl_time_add ossl_time_infinite (ossl_ticks2time 1) = ossl_time_infinite"
proof (intro conjI)
  show "ossl_time_add a b =
     (if unat (t a) + unat (t b) < 2 ^ 64
      then ossl_ticks2time (of_nat (unat (t a) + unat (t b)))
      else ossl_time_infinite)"
    by (simp add: ossl_time_add_unfold ossl_ticks2time_def ossl_time_infinite_def)
  show "unat (ossl_time2ticks (ossl_time_add a b)) =
     (if unat (t a) + unat (t b) < 2 ^ 64 then unat (t a) + unat (t b) else 2 ^ 64 - 1)"
    using unat_add_exact [of "t a" "t b"]
    by (simp add: ossl_time_add_unfold ossl_time2ticks_def unat_minus_1_64)
  show "ossl_time_add ossl_time_zero a = a"
    using unat_lt_64 [of "t a"]
    by (simp add: ossl_time_add_unfold ossl_time_zero_def ossl_ticks2time_def)
  show "ossl_time_add ossl_time_infinite (ossl_ticks2time 1) = ossl_time_infinite"
    by (simp add: ossl_time_add_unfold ossl_time_infinite_def ossl_ticks2time_def unat_minus_1_64)
qed

subsection \<open>Subtraction\<close>

text \<open>
  C2. For all times \<open>a\<close> and \<open>b\<close>, \<open>ossl_time_subtract a b\<close> is the time whose tick count
  is the ticks of \<open>a\<close> minus the ticks of \<open>b\<close> when the ticks of \<open>b\<close> do not exceed
  those of \<open>a\<close>, and is \<open>ossl_time_zero\<close> when they do. The result never exceeds \<open>a\<close>
  (it saturates down, never up), and 5 ticks minus 10 ticks is \<open>ossl_time_zero\<close>.
\<close>

theorem ossl_time_subtract_saturates:
  "ossl_time_subtract a b =
     (if unat (t b) \<le> unat (t a)
      then ossl_ticks2time (of_nat (unat (t a) - unat (t b)))
      else ossl_time_zero)
   \<and> unat (ossl_time2ticks (ossl_time_subtract a b)) =
     (if unat (t b) \<le> unat (t a) then unat (t a) - unat (t b) else 0)
   \<and> unat (ossl_time2ticks (ossl_time_subtract a b)) \<le> unat (ossl_time2ticks a)
   \<and> ossl_time_subtract (ossl_ticks2time 5) (ossl_ticks2time 10) = ossl_time_zero"
proof (intro conjI)
  show "ossl_time_subtract a b =
     (if unat (t b) \<le> unat (t a)
      then ossl_ticks2time (of_nat (unat (t a) - unat (t b)))
      else ossl_time_zero)"
    by (simp add: ossl_time_subtract_unfold ossl_ticks2time_def ossl_time_zero_def)
  show eq: "unat (ossl_time2ticks (ossl_time_subtract a b)) =
     (if unat (t b) \<le> unat (t a) then unat (t a) - unat (t b) else 0)"
    using unat_sub_exact [of "t b" "t a"]
    by (simp add: ossl_time_subtract_unfold ossl_time2ticks_def)
  show "unat (ossl_time2ticks (ossl_time_subtract a b)) \<le> unat (ossl_time2ticks a)"
    unfolding eq by (simp add: ossl_time2ticks_def)
  show "ossl_time_subtract (ossl_ticks2time 5) (ossl_ticks2time 10) = ossl_time_zero"
    by (simp add: ossl_time_subtract_unfold ossl_ticks2time_def ossl_time_zero_def)
qed

subsection \<open>Multiplication\<close>

text \<open>
  C5. For every time \<open>a\<close> and 64-bit scalar \<open>s\<close>, \<open>ossl_time_multiply a s\<close> is the time
  whose tick count is the exact product of the ticks of \<open>a\<close> and \<open>s\<close> when that
  product is below \<open>2 ^ 64\<close>, and is \<open>ossl_time_infinite\<close> when the product overflows.
  The time of \<open>2 ^ 64 - 1\<close> ticks multiplied by 2 is \<open>ossl_time_infinite\<close>.
\<close>

theorem ossl_time_multiply_saturates:
  "ossl_time_multiply a s =
     (if unat (t a) * unat s < 2 ^ 64
      then ossl_ticks2time (of_nat (unat (t a) * unat s))
      else ossl_time_infinite)
   \<and> unat (ossl_time2ticks (ossl_time_multiply a s)) =
     (if unat (t a) * unat s < 2 ^ 64 then unat (t a) * unat s else 2 ^ 64 - 1)
   \<and> ossl_time_multiply (ossl_ticks2time 18446744073709551615) 2 = ossl_time_infinite"
proof (intro conjI)
  show "ossl_time_multiply a s =
     (if unat (t a) * unat s < 2 ^ 64
      then ossl_ticks2time (of_nat (unat (t a) * unat s))
      else ossl_time_infinite)"
    by (simp add: ossl_time_multiply_unfold ossl_ticks2time_def ossl_time_infinite_def)
  show "unat (ossl_time2ticks (ossl_time_multiply a s)) =
     (if unat (t a) * unat s < 2 ^ 64 then unat (t a) * unat s else 2 ^ 64 - 1)"
    using unat_mult_exact [of "t a" s]
    by (simp add: ossl_time_multiply_unfold ossl_time2ticks_def unat_minus_1_64)
  show "ossl_time_multiply (ossl_ticks2time 18446744073709551615) 2 = ossl_time_infinite"
    by (simp add: ossl_time_multiply_unfold ossl_ticks2time_def ossl_time_infinite_def)
qed

subsection \<open>Division\<close>

text \<open>
  C3. For every time \<open>x\<close> and 64-bit scalar \<open>s\<close>, \<open>ossl_time_divide x s\<close> is
  \<open>ossl_time_zero\<close> when \<open>s = 0\<close>, and the time whose tick count is the truncating
  unsigned quotient of the ticks of \<open>x\<close> by \<open>s\<close> otherwise. Division by zero is a
  value of the time type (the function is total), it is \<open>ossl_time_zero\<close> and it is
  not \<open>ossl_time_infinite\<close>.
\<close>

theorem ossl_time_divide_by_zero_is_zero:
  "ossl_time_divide x s =
     (if s = 0 then ossl_time_zero
      else ossl_ticks2time (of_nat (unat (t x) div unat s)))
   \<and> unat (ossl_time2ticks (ossl_time_divide x s)) =
     (if s = 0 then 0 else unat (t x) div unat s)
   \<and> ossl_time_divide x 0 = ossl_time_zero
   \<and> ossl_time_divide x 0 \<noteq> ossl_time_infinite"
proof (intro conjI)
  show "ossl_time_divide x s =
     (if s = 0 then ossl_time_zero
      else ossl_ticks2time (of_nat (unat (t x) div unat s)))"
    by (simp add: ossl_time_divide_unfold ossl_ticks2time_def ossl_time_zero_def
        unat_div [symmetric])
  show "unat (ossl_time2ticks (ossl_time_divide x s)) =
     (if s = 0 then 0 else unat (t x) div unat s)"
    by (simp add: ossl_time_divide_unfold ossl_time2ticks_def unat_div)
  show "ossl_time_divide x 0 = ossl_time_zero"
    by (simp add: ossl_time_divide_unfold ossl_ticks2time_def ossl_time_zero_def)
  show "ossl_time_divide x 0 \<noteq> ossl_time_infinite"
    by (simp add: ossl_time_divide_unfold ossl_ticks2time_def ossl_time_infinite_def)
qed

subsection \<open>Absolute difference\<close>

lemma int_unat_abs_diff:
  "int (if m \<le> n then n - m else m - n) = \<bar>int n - int m\<bar>"
  by (simp add: of_nat_diff)

text \<open>
  C4. For all times \<open>a\<close> and \<open>b\<close>, \<open>ossl_time_abs_difference a b\<close> equals
  \<open>ossl_time_subtract (ossl_time_max a b) (ossl_time_min a b)\<close>; its tick count is exactly
  the absolute difference of the two tick counts; that subtraction never saturates
  (the checked subtraction of the smaller from the larger leaves the error flag at
  0); and the operation is symmetric in its operands.
\<close>

theorem ossl_time_abs_difference_exact_symmetric:
  "ossl_time_abs_difference a b = ossl_time_subtract (ossl_time_max a b) (ossl_time_min a b)
   \<and> int (unat (ossl_time2ticks (ossl_time_abs_difference a b))) =
       \<bar>int (unat (t a)) - int (unat (t b))\<bar>
   \<and> snd (safe_sub_time (t (ossl_time_max a b)) (t (ossl_time_min a b)) 0) = 0
   \<and> ossl_time_abs_difference a b = ossl_time_abs_difference b a"
proof (intro conjI)
  show "ossl_time_abs_difference a b = ossl_time_subtract (ossl_time_max a b) (ossl_time_min a b)"
    by (auto simp add: ossl_time_abs_difference_def ossl_time_max_def ossl_time_min_def
        ossl_time_subtract_unfold)
  have "unat (ossl_time2ticks (ossl_time_abs_difference a b)) =
      (if unat (t b) \<le> unat (t a) then unat (t a) - unat (t b) else unat (t b) - unat (t a))"
    using unat_sub_exact [of "t a" "t b"] unat_sub_exact [of "t b" "t a"]
    by (auto simp add: ossl_time_abs_difference_def ossl_time_subtract_unfold
        ossl_time2ticks_def word_less_nat_alt)
  then show "int (unat (ossl_time2ticks (ossl_time_abs_difference a b))) =
       \<bar>int (unat (t a)) - int (unat (t b))\<bar>"
    by (simp only: int_unat_abs_diff)
  show "snd (safe_sub_time (t (ossl_time_max a b)) (t (ossl_time_min a b)) 0) = 0"
    by (auto simp add: safe_sub_time_def ossl_time_max_def ossl_time_min_def word_less_nat_alt)
  show "ossl_time_abs_difference a b = ossl_time_abs_difference b a"
  proof (cases "t a = t b")
    case True
    then have "a = b" by simp
    then show ?thesis by simp
  next
    case False
    then show ?thesis by (auto simp add: ossl_time_abs_difference_def)
  qed
qed

subsection \<open>Addition then subtraction\<close>

text \<open>
  C10. When the sum of the tick counts of \<open>a\<close> and \<open>b\<close> is below \<open>2 ^ 64\<close> (the addition
  does not saturate), subtracting \<open>b\<close> from \<open>ossl_time_add a b\<close> gives back \<open>a\<close>.
\<close>

theorem ossl_time_add_subtract_cancel:
  "unat (t a) + unat (t b) < 2 ^ 64 \<Longrightarrow> ossl_time_subtract (ossl_time_add a b) b = a"
  using unat_add_exact [of "t a" "t b"]
  by (simp add: ossl_time_add_unfold ossl_time_subtract_unfold)

text \<open>The theorem at times of 7 and 5 ticks.\<close>

theorem ossl_time_add_subtract_cancel_witness:
  "unat (t (ossl_ticks2time 7)) + unat (t (ossl_ticks2time 5)) < 2 ^ 64
   \<and> ossl_time_subtract (ossl_time_add (ossl_ticks2time 7) (ossl_ticks2time 5)) (ossl_ticks2time 5)
       = ossl_ticks2time 7"
  using ossl_time_add_subtract_cancel [of "ossl_ticks2time 7" "ossl_ticks2time 5"]
  by (simp add: ossl_ticks2time_def)

subsection \<open>Comparison, minimum and maximum\<close>

text \<open>
  C7. \<open>ossl_time_compare\<close> orders times by their raw tick count: it returns -1 when
  the ticks of \<open>a\<close> are below those of \<open>b\<close>, 1 when they are above, and 0 when they are
  equal (which is when the two times are equal). So
  \<open>ossl_time_compare a b = - ossl_time_compare b a\<close> and \<open>ossl_time_compare a a = 0\<close>.
\<close>

theorem ossl_time_compare_total_order:
  "ossl_time_compare a b =
     (if unat (t a) < unat (t b) then - 1
      else if unat (t a) > unat (t b) then 1
      else 0)
   \<and> (ossl_time_compare a b = 0) = (a = b)
   \<and> ossl_time_compare a b = - ossl_time_compare b a
   \<and> ossl_time_compare a a = 0"
proof (intro conjI)
  show "ossl_time_compare a b =
     (if unat (t a) < unat (t b) then - 1
      else if unat (t a) > unat (t b) then 1
      else 0)"
    by (auto simp add: ossl_time_compare_def word_less_nat_alt)
  show "(ossl_time_compare a b = 0) = (a = b)"
    by (auto simp add: ossl_time_compare_def)
  show "ossl_time_compare a b = - ossl_time_compare b a"
    by (auto simp add: ossl_time_compare_def)
  show "ossl_time_compare a a = 0"
    by (simp add: ossl_time_compare_def)
qed

text \<open>
  C8. For all times \<open>a\<close> and \<open>b\<close>, the pair of \<open>ossl_time_min a b\<close> and
  \<open>ossl_time_max a b\<close> is a permutation of the pair of \<open>a\<close> and \<open>b\<close>: as sets they are
  equal, and the pair is \<open>(a, b)\<close> or \<open>(b, a)\<close>. The minimum compares less than or equal
  to the maximum.
\<close>

theorem ossl_time_min_max_permutation:
  "{ossl_time_min a b, ossl_time_max a b} = {a, b}
   \<and> ((ossl_time_min a b, ossl_time_max a b) = (a, b)
      \<or> (ossl_time_min a b, ossl_time_max a b) = (b, a))
   \<and> ossl_time_compare (ossl_time_min a b) (ossl_time_max a b) \<le> 0"
  by (auto simp add: ossl_time_min_def ossl_time_max_def ossl_time_compare_def)

text \<open>
  C9. When the two operands have equal tick counts, \<open>ossl_time_min a b\<close> and
  \<open>ossl_time_max a b\<close> both return the second operand \<open>b\<close>. The operands range over
  every structure that holds the field \<open>t\<close>, so they may differ although their ticks
  are equal, and the result is then \<open>b\<close> and not \<open>a\<close>.
\<close>

theorem ossl_time_min_max_tie_second:
  "t a = t b \<Longrightarrow> ossl_time_min a b = b \<and> ossl_time_max a b = b"
  by (simp add: ossl_time_min_def ossl_time_max_def)

text \<open>
  The theorem at two operands of 7 ticks that differ in a further field, where the
  result is the second and not the first, and at two \<open>OSSL_TIME\<close> values of 7 ticks.
\<close>

theorem ossl_time_min_max_tie_second_witness:
  "t \<lparr>t = 7, \<dots> = False\<rparr> = t \<lparr>t = 7, \<dots> = True\<rparr>
   \<and> ossl_time_min \<lparr>t = 7, \<dots> = False\<rparr> \<lparr>t = 7, \<dots> = True\<rparr> = \<lparr>t = 7, \<dots> = True\<rparr>
   \<and> ossl_time_max \<lparr>t = 7, \<dots> = False\<rparr> \<lparr>t = 7, \<dots> = True\<rparr> = \<lparr>t = 7, \<dots> = True\<rparr>
   \<and> ossl_time_min \<lparr>t = 7, \<dots> = False\<rparr> \<lparr>t = 7, \<dots> = True\<rparr> \<noteq> \<lparr>t = 7, \<dots> = False\<rparr>
   \<and> ossl_time_max \<lparr>t = 7, \<dots> = False\<rparr> \<lparr>t = 7, \<dots> = True\<rparr> \<noteq> \<lparr>t = 7, \<dots> = False\<rparr>
   \<and> ossl_time_min (ossl_ticks2time 7) \<lparr>t = 7\<rparr> = \<lparr>t = 7\<rparr>
   \<and> ossl_time_max (ossl_ticks2time 7) \<lparr>t = 7\<rparr> = \<lparr>t = 7\<rparr>"
  using ossl_time_min_max_tie_second [of "\<lparr>t = 7, \<dots> = False\<rparr>" "\<lparr>t = 7, \<dots> = True\<rparr>"]
    ossl_time_min_max_tie_second [of "ossl_ticks2time 7" "\<lparr>t = 7\<rparr>"]
  by (simp add: ossl_ticks2time_def)

subsection \<open>Conversion to the wall-clock structure\<close>

lemma sint_small_64:
  "unat x < 2 ^ 63 \<Longrightarrow> sint x = int (unat x)" for x :: "64 word"
proof -
  assume "unat x < 2 ^ 63"
  then have "int (unat x) < int (2 ^ 63)" by (simp only: of_nat_less_iff)
  then have "uint x < 2 ^ 63" by simp
  moreover have "- (2 ^ 63) \<le> uint x"
    by (rule order_trans [of _ 0]) simp_all
  ultimately have "signed_take_bit 63 (uint x) = uint x"
    by (rule signed_take_bit_int_eq_self [rotated])
  then show ?thesis by (simp add: sint_uint)
qed

lemma unat_seconds:
  "unat (x div OSSL_TIME_SECOND) = unat x div 1000000000"
  by (simp add: OSSL_TIME_SECOND_def unat_div)

lemma unat_microseconds:
  "unat ((x mod OSSL_TIME_SECOND) div (OSSL_TIME_SECOND div 1000000)) =
     (unat x mod 1000000000) div 1000"
  by (simp add: OSSL_TIME_SECOND_def unat_div unat_mod)

lemma sint_long_int_win32:
  "sint (scast (ucast x :: long_int_win32) :: time_t) = sint (word_of_nat (unat x) :: 32 word)"
  for x :: "64 word"
proof -
  have "sint (scast (ucast x :: 32 word) :: 64 word) = sint (ucast x :: 32 word)"
    by (rule sint_up_scast) (simp add: is_up)
  then show ?thesis by simp
qed

lemma sint_of_nat_small_32:
  "n < 2 ^ 31 \<Longrightarrow> sint (word_of_nat n :: 32 word) = int n"
proof -
  assume "n < 2 ^ 31"
  then have "int n < int (2 ^ 31)" by (simp only: of_nat_less_iff)
  then have "int n < 2 ^ 31" by simp
  moreover have "- (2 ^ 31) \<le> int n"
    by (rule order_trans [of _ 0]) simp_all
  ultimately have "signed_take_bit 31 (int n) = int n"
    by (rule signed_take_bit_int_eq_self [rotated])
  then show ?thesis by (simp add: signed_of_nat)
qed

text \<open>
  C6. For every time \<open>a\<close>: in a build without \<^verbatim>\<open>_WIN32\<close>,
  \<open>ossl_time_time_to_timeval\<close> stores in \<open>tv_sec\<close> the ticks of \<open>a\<close> integer-divided by
  1,000,000,000; in a build with \<^verbatim>\<open>_WIN32\<close> it does so when the ticks are below
  2,147,483,648,000,000,000 (the quotient fits the 32-bit \<^verbatim>\<open>long int\<close>), and from
  there on it stores the low 32 bits of that quotient read as two's complement. In
  either build \<open>tv_usec\<close> is the ticks modulo 1,000,000,000 integer-divided by 1,000
  (truncating) and at most 999999, and 1,500,000,000 ticks give 1 second and 500000
  microseconds.
\<close>

theorem ossl_time_time_to_timeval_split:
  "sint (tv_sec (ossl_time_time_to_timeval False a out)) = int (unat (t a) div 1000000000)
   \<and> sint (tv_sec (ossl_time_time_to_timeval True a out)) =
       (if unat (t a) < 2147483648000000000 then int (unat (t a) div 1000000000)
        else sint (word_of_nat (unat (t a) div 1000000000) :: 32 word))
   \<and> unat (tv_usec (ossl_time_time_to_timeval win32 a out)) = (unat (t a) mod 1000000000) div 1000
   \<and> unat (tv_usec (ossl_time_time_to_timeval win32 a out)) \<le> 999999
   \<and> ossl_time_time_to_timeval win32 (ossl_ticks2time 1500000000) out =
       \<lparr>tv_sec = 1, tv_usec = 500000\<rparr>"
proof (intro conjI)
  have "unat (t a div OSSL_TIME_SECOND) < 2 ^ 63"
    unfolding unat_seconds using unat_lt_64 [of "t a"] by simp
  then show "sint (tv_sec (ossl_time_time_to_timeval False a out)) =
      int (unat (t a) div 1000000000)"
    by (simp add: ossl_time_time_to_timeval_def sint_small_64 unat_seconds del: of_nat_unat)
  have w: "sint (tv_sec (ossl_time_time_to_timeval True a out)) =
      sint (word_of_nat (unat (t a) div 1000000000) :: 32 word)"
    by (simp add: ossl_time_time_to_timeval_def sint_long_int_win32 unat_seconds
        del: of_nat_unat)
  show "sint (tv_sec (ossl_time_time_to_timeval True a out)) =
       (if unat (t a) < 2147483648000000000 then int (unat (t a) div 1000000000)
        else sint (word_of_nat (unat (t a) div 1000000000) :: 32 word))"
  proof (cases "unat (t a) < 2147483648000000000")
    case True
    then have "unat (t a) div 1000000000 < 2 ^ 31" by simp
    then show ?thesis using True by (simp only: w sint_of_nat_small_32 if_True)
  next
    case False
    then show ?thesis by (simp only: w if_False)
  qed
  have "(unat (t a) mod 1000000000) div 1000 < 2 ^ 32"
    by (rule le_less_trans [of _ 999999]) simp_all
  then show us: "unat (tv_usec (ossl_time_time_to_timeval win32 a out)) =
      (unat (t a) mod 1000000000) div 1000"
    by (simp add: ossl_time_time_to_timeval_def unsigned_ucast_eq unat_microseconds
        take_bit_nat_eq_self)
  show "unat (tv_usec (ossl_time_time_to_timeval win32 a out)) \<le> 999999"
    unfolding us by simp
  show "ossl_time_time_to_timeval win32 (ossl_ticks2time 1500000000) out =
       \<lparr>tv_sec = 1, tv_usec = 500000\<rparr>"
    by (simp add: ossl_time_time_to_timeval_def ossl_ticks2time_def OSSL_TIME_SECOND_def)
qed

text \<open>
  The seconds are not the quotient in every build: in a build with \<^verbatim>\<open>_WIN32\<close>, at
  2,147,483,648,000,000,000 ticks the quotient is 2147483648 and the seconds stored
  are -2147483648.
\<close>

theorem ossl_time_time_to_timeval_win32_truncates:
  "sint (tv_sec (ossl_time_time_to_timeval True (ossl_ticks2time 2147483648000000000)
       \<lparr>tv_sec = 0, tv_usec = 0\<rparr>)) = - 2147483648
   \<and> int (unat (t (ossl_ticks2time 2147483648000000000)) div 1000000000) = 2147483648
   \<and> sint (tv_sec (ossl_time_time_to_timeval True (ossl_ticks2time 2147483648000000000)
       \<lparr>tv_sec = 0, tv_usec = 0\<rparr>))
     \<noteq> int (unat (t (ossl_ticks2time 2147483648000000000)) div 1000000000)"
  by (simp add: ossl_time_time_to_timeval_def ossl_ticks2time_def OSSL_TIME_SECOND_def)

end
